theory Spec2Isabelle
  imports Complex_Main
begin

section \<open>Numerical kernels of pyPRISM: potentials and closures\<close>

text \<open>
  The development embeds two source files: the Weeks-Chandler-Andersen potential
  (\<^verbatim>\<open>pyPRISM/potential/WeeksChandlerAndersen.py\<close>) and the Percus-Yevick closure
  (\<^verbatim>\<open>typyPRISM/closure/PercusYevick.py\<close>).

  A one-dimensional numpy array is a list of its elements. The closure is defined over
  any element type that has the arithmetic its formula uses, with the function that stands
  for \<^verbatim>\<open>np.exp\<close> as a parameter; \<open>calculate\<close> is the closure over the reals with the
  exponential function: the ideal arithmetic, without rounding, overflow, infinities or NaN.
  The potentials are over the reals. Arrays are objects with identity, so they live in a
  store; a closure holds references into it.
\<close>

type_synonym 'a ndarray = "'a list"

subsection \<open>Potentials\<close>

text \<open>
  Modelled from the spec: the base class \<^verbatim>\<open>LennardJones\<close>
  (\<^verbatim>\<open>pyPRISM/potential/LennardJones.py\<close>) is not among the sources. Its parameters
  are the four the constructor call in \<^verbatim>\<open>WeeksChandlerAndersen.__init__\<close> passes.
\<close>

record LennardJones =
  epsilon :: real
  sigma :: real
  rcut :: "real option"
  shift :: bool

definition LennardJones_init :: "real \<Rightarrow> real \<Rightarrow> real option \<Rightarrow> bool \<Rightarrow> LennardJones" where
  "LennardJones_init eps sig rc sh = \<lparr>epsilon = eps, sigma = sig, rcut = rc, shift = sh\<rparr>"

text \<open>
  Modelled from the spec: the two-term inverse-power expression, the 12th and 6th powers
  of \<open>sigma / r\<close> scaled by \<open>epsilon\<close>; the factor 4 is the one of the docstring of
  \<^verbatim>\<open>WeeksChandlerAndersen\<close>.
\<close>

definition LennardJones_funk :: "LennardJones \<Rightarrow> real \<Rightarrow> real" where
  "LennardJones_funk lj x =
     4 * epsilon lj * ((LennardJones.sigma lj / x) ^ 12 - (LennardJones.sigma lj / x) ^ 6)"

text \<open>
  Modelled from the spec: the evaluation of the missing base class, elementwise over the
  grid. Shift policy: a value computed for \<open>r < rcut\<close> is shifted by \<open>+ epsilon\<close>.
  Cutoff policy: for \<open>r \<ge> rcut\<close> the output is forced to \<open>0\<close>. Without a cutoff
  the raw expression is returned.
\<close>

definition LennardJones_calculate :: "LennardJones \<Rightarrow> real ndarray \<Rightarrow> real ndarray" where
  "LennardJones_calculate lj r =
     map (\<lambda>x. case rcut lj of
                 None \<Rightarrow> LennardJones_funk lj x
               | Some rc \<Rightarrow>
                   if rc \<le> x then 0
                   else if shift lj then LennardJones_funk lj x + epsilon lj
                   else LennardJones_funk lj x) r"

text \<open>
  \<^verbatim>\<open>WeeksChandlerAndersen.__init__(self, epsilon, sigma)\<close>: computes
  \<^verbatim>\<open>rcut = sigma * 2**(1.0/6.0)\<close> and calls the constructor of the base class with
  \<^verbatim>\<open>rcut=rcut, shift=True\<close>. The base constructor is a parameter, since the class
  defines nothing else but \<^verbatim>\<open>__repr__\<close>: evaluation is inherited.
\<close>

definition WeeksChandlerAndersen_init ::
  "(real \<Rightarrow> real \<Rightarrow> real option \<Rightarrow> bool \<Rightarrow> 'obj) \<Rightarrow> real \<Rightarrow> real \<Rightarrow> 'obj" where
  "WeeksChandlerAndersen_init super_init eps sig =
     (let rc = sig * 2 powr (1 / 6) in super_init eps sig (Some rc) True)"

subsection \<open>The store of arrays\<close>

text \<open>
  An address is an index into the store. A new array is put at the end, so its address
  is fresh and no live address changes its meaning.
\<close>

type_synonym addr = nat
type_synonym 'a heap = "'a ndarray list"

definition alloc :: "'a heap \<Rightarrow> 'a ndarray \<Rightarrow> 'a heap \<times> addr" where
  "alloc h a = (h @ [a], length h)"

subsection \<open>The numpy operations that \<^verbatim>\<open>calculate\<close> uses\<close>

datatype error = AssertionError string | IndexError | TypeError

text \<open>
  \<^verbatim>\<open>c - a\<close>, \<^verbatim>\<open>a - c\<close> and \<^verbatim>\<open>c + a\<close> for a scalar \<open>c\<close>; \<^verbatim>\<open>-a\<close>; \<^verbatim>\<open>np.exp(a)\<close>,
  with the function applied to each element as the parameter \<open>ef\<close>.
\<close>

definition scalar_sub :: "'a::minus \<Rightarrow> 'a ndarray \<Rightarrow> 'a ndarray" where
  "scalar_sub c a = map (\<lambda>x. c - x) a"

definition sub_scalar :: "'a::minus ndarray \<Rightarrow> 'a \<Rightarrow> 'a ndarray" where
  "sub_scalar a c = map (\<lambda>x. x - c) a"

definition scalar_add :: "'a::plus \<Rightarrow> 'a ndarray \<Rightarrow> 'a ndarray" where
  "scalar_add c a = map (\<lambda>x. c + x) a"

definition neg_arr :: "'a::uminus ndarray \<Rightarrow> 'a ndarray" where
  "neg_arr a = map uminus a"

definition exp_arr :: "('a \<Rightarrow> 'a) \<Rightarrow> 'a ndarray \<Rightarrow> 'a ndarray" where
  "exp_arr ef a = map ef a"

text \<open>
  \<^verbatim>\<open>a * b\<close>, elementwise. Both uses below multiply arrays of one length (lemma
  \<open>getitem_mask_length\<close> for the masked ones), so that broadcasting and the shape error
  of numpy do not arise.
\<close>

definition mul_arr :: "'a::times ndarray \<Rightarrow> 'a ndarray \<Rightarrow> 'a ndarray" where
  "mul_arr a b = map2 (*) a b"

text \<open>\<^verbatim>\<open>a > c\<close>: the boolean mask of a strict comparison with a scalar.\<close>

definition gt_scalar :: "'a::ord ndarray \<Rightarrow> 'a \<Rightarrow> bool list" where
  "gt_scalar a c = map (\<lambda>x. c < x) a"

text \<open>
  \<^verbatim>\<open>r > self.sigma\<close>, where the field may still be \<^verbatim>\<open>None\<close>. The comparison is made
  element by element: ordering a float against \<^verbatim>\<open>None\<close> is a TypeError (Python 3), and
  an empty array, which has no element to compare, gives the empty mask.
\<close>

fun gt_sigma :: "'a::ord ndarray \<Rightarrow> 'a option \<Rightarrow> error + bool list" where
  "gt_sigma a (Some c) = Inr (gt_scalar a c)"
| "gt_sigma a None = (if a = [] then Inr [] else Inl TypeError)"

text \<open>
  \<^verbatim>\<open>a[mask]\<close>: the elements of \<open>a\<close> where the mask holds, in order, as a new array.
  numpy raises IndexError when the mask has another length than the array, unless the
  mask has length 0: an empty mask selects nothing from an array of any length.
\<close>

definition select_mask :: "'a ndarray \<Rightarrow> bool list \<Rightarrow> 'a ndarray" where
  "select_mask a m = map fst (filter snd (zip a m))"

definition getitem_mask :: "'a ndarray \<Rightarrow> bool list \<Rightarrow> error + 'a ndarray" where
  "getitem_mask a m =
     (if length m \<noteq> length a \<and> m \<noteq> [] then Inl IndexError else Inr (select_mask a m))"

text \<open>
  \<^verbatim>\<open>a[mask] = vs\<close>: writes the values, in order, at the positions where the mask holds,
  in place. The positions where it does not hold keep their element. numpy raises
  IndexError when the mask has another length than the array, unless the mask has length
  0: then nothing is written, whatever the length of the array. numpy also refuses a
  number of values that is neither one nor the number of positions; \<open>calculate\<close> passes
  as many values as the mask has positions (lemma \<open>length_select_mask\<close>), and the last
  equation of \<open>put_mask\<close>, which keeps the rest of the array, is not reached with
  values missing.
\<close>

fun put_mask :: "'a ndarray \<Rightarrow> bool list \<Rightarrow> 'a ndarray \<Rightarrow> 'a ndarray" where
  "put_mask (a # as) (True # ms) (v # vs) = v # put_mask as ms vs"
| "put_mask (a # as) (False # ms) vs = a # put_mask as ms vs"
| "put_mask as ms vs = as"

definition setitem_mask :: "'a ndarray \<Rightarrow> bool list \<Rightarrow> 'a ndarray \<Rightarrow> error + 'a ndarray" where
  "setitem_mask a m vs =
     (if length m \<noteq> length a \<and> m \<noteq> [] then Inl IndexError else Inr (put_mask a m vs))"

subsection \<open>The Percus-Yevick closure\<close>

text \<open>
  \<^verbatim>\<open>PercusYevick.__init__\<close> sets \<^verbatim>\<open>potential\<close>, \<^verbatim>\<open>value\<close> and \<^verbatim>\<open>sigma\<close> to
  \<^verbatim>\<open>None\<close> and stores the flag. The arrays are references.
\<close>

record 'a PercusYevick =
  potential :: "addr option"
  "value" :: "addr option"
  sigma :: "'a option"
  apply_hard_core :: bool

definition PercusYevick_init :: "bool \<Rightarrow> 'a PercusYevick" where
  "PercusYevick_init ahc = \<lparr>potential = None, value = None, sigma = None, apply_hard_core = ahc\<rparr>"

text \<open>
  \<^verbatim>\<open>PercusYevick.calculate(self, r, gamma)\<close>, with \<open>ef\<close> for \<^verbatim>\<open>np.exp\<close>. The result is
  the store and the closure after the call, and either the error raised or the reference
  returned.

  \<^item> The two assertions come first and leave everything as it was.
  \<^item> With the hard core, \<^verbatim>\<open>self.value = -1 - gamma\<close> binds the field to a new array;
    then the mask \<^verbatim>\<open>r > self.sigma\<close> is computed; the right-hand side is evaluated
    before the masked assignment, and a mask of another length, unless it is empty, is an
    IndexError of the first masked read. The errors come after the field is bound.
  \<^item> Without it, the field is bound to the new array of the closure formula; \<open>r\<close> is
    not read.
  \<^item> The field itself is returned: the same reference.

  The intermediate arrays are not put into the store: no reference to them remains.
\<close>

definition calculate_with ::
  "('a \<Rightarrow> 'a) \<Rightarrow> 'a::{one,uminus,minus,plus,times,ord} heap \<Rightarrow> 'a PercusYevick \<Rightarrow> addr \<Rightarrow> addr \<Rightarrow>
   ('a heap \<times> 'a PercusYevick) \<times> (error + addr)" where
  "calculate_with ef h self r gamma =
     (case potential self of
        None \<Rightarrow> ((h, self), Inl (AssertionError ''Potential for this closure is not set!''))
      | Some p \<Rightarrow>
          if length (h ! gamma) \<noteq> length (h ! p)
          then ((h, self), Inl (AssertionError ''Domain mismatch!''))
          else if apply_hard_core self then
            (let (h1, v) = alloc h (scalar_sub (- 1) (h ! gamma));
                 self1 = self\<lparr>value := Some v\<rparr>
             in case gt_sigma (h1 ! r) (sigma self1) of
                  Inl e \<Rightarrow> ((h1, self1), Inl e)
                | Inr mask' \<Rightarrow>
                    (case getitem_mask (h1 ! p) mask' of
                       Inl e \<Rightarrow> ((h1, self1), Inl e)
                     | Inr pm \<Rightarrow>
                         (case getitem_mask (h1 ! gamma) mask' of
                            Inl e \<Rightarrow> ((h1, self1), Inl e)
                          | Inr gm \<Rightarrow>
                              (case setitem_mask (h1 ! v) mask'
                                      (mul_arr (sub_scalar (exp_arr ef (neg_arr pm)) 1)
                                               (scalar_add 1 gm)) of
                                 Inl e \<Rightarrow> ((h1, self1), Inl e)
                               | Inr a \<Rightarrow> ((h1[v := a], self1), Inr v)))))
          else
            (let (h1, v) = alloc h (mul_arr (sub_scalar (exp_arr ef (neg_arr (h ! p))) 1)
                                            (scalar_add 1 (h ! gamma)));
                 self1 = self\<lparr>value := Some v\<rparr>
             in ((h1, self1), Inr v)))"

text \<open>The closure over the reals, with the exponential function.\<close>

definition calculate ::
  "real heap \<Rightarrow> real PercusYevick \<Rightarrow> addr \<Rightarrow> addr \<Rightarrow>
   (real heap \<times> real PercusYevick) \<times> (error + addr)" where
  "calculate h self r gamma = calculate_with exp h self r gamma"

text \<open>
  Every reference a call receives is live: the two arguments, and the bound potential.
\<close>

definition live :: "'a heap \<Rightarrow> 'a PercusYevick \<Rightarrow> addr \<Rightarrow> addr \<Rightarrow> bool" where
  "live h self r gamma =
     (r < length h \<and> gamma < length h \<and>
      (case potential self of None \<Rightarrow> True | Some p \<Rightarrow> p < length h))"

text \<open>
  What a caller can observe of a closure, with the arrays it refers to read from the
  store: the bound state (the potential, \<open>sigma\<close> and the flag), and the cached value.
\<close>

definition bound_state :: "'a heap \<Rightarrow> 'a PercusYevick \<Rightarrow> 'a ndarray option \<times> 'a option \<times> bool" where
  "bound_state h self = (map_option ((!) h) (potential self), sigma self, apply_hard_core self)"

definition cached_value :: "'a heap \<Rightarrow> 'a PercusYevick \<Rightarrow> 'a ndarray option" where
  "cached_value h self = map_option ((!) h) (value self)"

subsection \<open>An element type with infinities\<close>

text \<open>
  The values of IEEE arithmetic without the rounding: the reals, the two infinities and
  NaN, with the arithmetic of the special values. A potential that diverges inside the
  core holds such elements.
\<close>

datatype xreal = Fin real | PInf | MInf | NaN

instantiation xreal :: "{one, uminus, minus, plus, times, ord}"
begin

definition one_xreal :: xreal where
  "one_xreal = Fin 1"

fun uminus_xreal :: "xreal \<Rightarrow> xreal" where
  "uminus_xreal (Fin x) = Fin (- x)"
| "uminus_xreal PInf = MInf"
| "uminus_xreal MInf = PInf"
| "uminus_xreal NaN = NaN"

fun plus_xreal :: "xreal \<Rightarrow> xreal \<Rightarrow> xreal" where
  "plus_xreal (Fin x) (Fin y) = Fin (x + y)"
| "plus_xreal NaN b = NaN"
| "plus_xreal a NaN = NaN"
| "plus_xreal PInf MInf = NaN"
| "plus_xreal MInf PInf = NaN"
| "plus_xreal PInf b = PInf"
| "plus_xreal a PInf = PInf"
| "plus_xreal MInf b = MInf"
| "plus_xreal a MInf = MInf"

definition minus_xreal :: "xreal \<Rightarrow> xreal \<Rightarrow> xreal" where
  "minus_xreal a b = a + (- b)"

fun times_xreal :: "xreal \<Rightarrow> xreal \<Rightarrow> xreal" where
  "times_xreal (Fin x) (Fin y) = Fin (x * y)"
| "times_xreal NaN b = NaN"
| "times_xreal a NaN = NaN"
| "times_xreal PInf (Fin y) = (if y = 0 then NaN else if 0 < y then PInf else MInf)"
| "times_xreal MInf (Fin y) = (if y = 0 then NaN else if 0 < y then MInf else PInf)"
| "times_xreal (Fin x) PInf = (if x = 0 then NaN else if 0 < x then PInf else MInf)"
| "times_xreal (Fin x) MInf = (if x = 0 then NaN else if 0 < x then MInf else PInf)"
| "times_xreal PInf PInf = PInf"
| "times_xreal PInf MInf = MInf"
| "times_xreal MInf PInf = MInf"
| "times_xreal MInf MInf = PInf"

fun less_xreal :: "xreal \<Rightarrow> xreal \<Rightarrow> bool" where
  "less_xreal (Fin x) (Fin y) = (x < y)"
| "less_xreal NaN b = False"
| "less_xreal a NaN = False"
| "less_xreal MInf MInf = False"
| "less_xreal MInf b = True"
| "less_xreal PInf b = False"
| "less_xreal (Fin x) PInf = True"
| "less_xreal (Fin x) MInf = False"

definition less_eq_xreal :: "xreal \<Rightarrow> xreal \<Rightarrow> bool" where
  "less_eq_xreal a b = (a < b \<or> (a = b \<and> a \<noteq> NaN))"

instance ..

end

text \<open>The exponential: it overflows to infinity and underflows to zero.\<close>

fun xexp :: "xreal \<Rightarrow> xreal" where
  "xexp (Fin x) = Fin (exp x)"
| "xexp PInf = PInf"
| "xexp MInf = Fin 0"
| "xexp NaN = NaN"

section \<open>Properties\<close>

subsection \<open>Masked reads and writes\<close>

lemma select_mask_Cons:
  "select_mask (a # as) (m # ms) = (if m then a # select_mask as ms else select_mask as ms)"
  by (simp add: select_mask_def)

lemma select_mask_Nil: "select_mask [] ms = []" "select_mask as [] = []"
  by (simp_all add: select_mask_def)

lemma length_select_mask:
  "length a = length m \<Longrightarrow> length (select_mask a m) = length (filter id m)"
  by (induction a m rule: list_induct2) (simp_all add: select_mask_Cons select_mask_Nil)

lemma getitem_mask_length:
  "length a = length b \<Longrightarrow> getitem_mask a m = Inr x \<Longrightarrow> getitem_mask b m = Inr y \<Longrightarrow>
   length x = length y"
  by (cases "m = []")
     (auto simp: getitem_mask_def length_select_mask select_mask_Nil split: if_splits)

lemma arr_ops_Cons:
  "scalar_sub c (x # a) = (c - x) # scalar_sub c a"
  "sub_scalar (x # a) c = (x - c) # sub_scalar a c"
  "scalar_add c (x # a) = (c + x) # scalar_add c a"
  "neg_arr (x # a) = (- x) # neg_arr a"
  "exp_arr ef (x # a) = ef x # exp_arr ef a"
  "mul_arr (x # a) (y # b) = (x * y) # mul_arr a b"
  by (simp_all add: scalar_sub_def mul_arr_def sub_scalar_def exp_arr_def neg_arr_def
        scalar_add_def)

lemma arr_ops_Nil:
  "scalar_sub c [] = []" "sub_scalar [] c = []" "scalar_add c [] = []" "neg_arr [] = []"
  "exp_arr ef [] = []" "mul_arr [] b = []" "mul_arr a [] = []"
  by (simp_all add: scalar_sub_def mul_arr_def sub_scalar_def exp_arr_def neg_arr_def
        scalar_add_def)

lemma length_scalar_sub: "length (scalar_sub c a) = length a"
  by (simp add: scalar_sub_def)

lemma put_mask_hard_core:
  "length p = length g \<Longrightarrow> length g = length m \<Longrightarrow>
   put_mask (scalar_sub (- 1) g) m
     (mul_arr (sub_scalar (exp_arr ef (neg_arr (select_mask p m))) 1)
              (scalar_add 1 (select_mask g m)))
   = map (\<lambda>(b, u, x). if b then (ef (- u) - 1) * (1 + x) else - 1 - x) (zip m (zip p g))"
proof (induction p g m rule: list_induct3)
  case Nil
  show ?case by (simp add: arr_ops_Nil)
next
  case (Cons u p x g b m)
  show ?case
  proof (cases b)
    case True
    then show ?thesis
      using Cons.IH by (simp add: select_mask_Cons arr_ops_Cons)
  next
    case False
    then show ?thesis
      using Cons.IH by (simp add: select_mask_Cons arr_ops_Cons)
  qed
qed

lemma closure_formula_arr:
  "length p = length g \<Longrightarrow>
   mul_arr (sub_scalar (exp_arr ef (neg_arr p)) 1) (scalar_add 1 g)
   = map (\<lambda>(u, x). (ef (- u) - 1) * (1 + x)) (zip p g)"
  by (induction p g rule: list_induct2) (simp_all add: arr_ops_Nil arr_ops_Cons)

subsection \<open>What a call computes\<close>

text \<open>
  The branches of the closure in closed form: the store gains one array, the field
  \<open>value\<close> refers to it, and its reference is returned. With the hard core and an empty
  \<open>r\<close> nothing is written over \<open>-1 - gamma\<close>.
\<close>

lemma calculate_with_no_hard_core:
  assumes "potential self = Some p" and "\<not> apply_hard_core self"
    and "length (h ! gamma) = length (h ! p)"
  shows "calculate_with ef h self r gamma =
           ((h @ [map (\<lambda>(u, x). (ef (- u) - 1) * (1 + x)) (zip (h ! p) (h ! gamma))],
             self\<lparr>value := Some (length h)\<rparr>), Inr (length h))"
  using assms by (simp add: calculate_with_def alloc_def closure_formula_arr Let_def)

lemma calculate_with_hard_core:
  assumes "potential self = Some p" and "apply_hard_core self" and "sigma self = Some s"
    and "length (h ! gamma) = length (h ! p)" and "length (h ! r) = length (h ! p)"
    and "r < length h" and "gamma < length h" and "p < length h"
  shows "calculate_with ef h self r gamma =
           ((h @ [map (\<lambda>(b, u, x). if b then (ef (- u) - 1) * (1 + x) else - 1 - x)
                     (zip (gt_scalar (h ! r) s) (zip (h ! p) (h ! gamma)))],
             self\<lparr>value := Some (length h)\<rparr>), Inr (length h))"
proof -
  let ?m = "gt_scalar (h ! r) s"
  have len: "length ?m = length (h ! p)"
    using assms(5) by (simp add: gt_scalar_def)
  have "put_mask (scalar_sub (- 1) (h ! gamma)) ?m
          (mul_arr (sub_scalar (exp_arr ef (neg_arr (select_mask (h ! p) ?m))) 1)
                   (scalar_add 1 (select_mask (h ! gamma) ?m)))
        = map (\<lambda>(b, u, x). if b then (ef (- u) - 1) * (1 + x) else - 1 - x)
            (zip ?m (zip (h ! p) (h ! gamma)))"
    using assms(4) len by (intro put_mask_hard_core) simp_all
  then have upd: "setitem_mask (scalar_sub (- 1) (h ! gamma)) ?m
          (mul_arr (sub_scalar (exp_arr ef (neg_arr (select_mask (h ! p) ?m))) 1)
                   (scalar_add 1 (select_mask (h ! gamma) ?m)))
        = Inr (map (\<lambda>(b, u, x). if b then (ef (- u) - 1) * (1 + x) else - 1 - x)
            (zip ?m (zip (h ! p) (h ! gamma))))"
    using len assms(4) by (simp add: setitem_mask_def length_scalar_sub)
  have gp: "getitem_mask (h ! p) ?m = Inr (select_mask (h ! p) ?m)"
    using len by (simp add: getitem_mask_def)
  have gg: "getitem_mask (h ! gamma) ?m = Inr (select_mask (h ! gamma) ?m)"
    using len assms(4) by (simp add: getitem_mask_def)
  have old: "(h @ [a]) ! r = h ! r" "(h @ [a]) ! gamma = h ! gamma" "(h @ [a]) ! p = h ! p"
    "(h @ [a]) ! length h = a" for a
    using assms(6-8) by (simp_all add: nth_append)
  show ?thesis
    unfolding calculate_with_def alloc_def Let_def
    using assms(1-4) by (simp add: old gp gg upd)
qed

lemma calculate_with_hard_core_empty:
  assumes "potential self = Some p" and "apply_hard_core self"
    and "length (h ! gamma) = length (h ! p)" and "h ! r = []"
    and "r < length h" and "gamma < length h" and "p < length h"
  shows "calculate_with ef h self r gamma =
           ((h @ [map (\<lambda>x. - 1 - x) (h ! gamma)],
             self\<lparr>value := Some (length h)\<rparr>), Inr (length h))"
proof -
  have mask: "gt_sigma [] (sigma self) = Inr []"
    by (cases "sigma self") (simp_all add: gt_scalar_def)
  have old: "(h @ [a]) ! r = []" "(h @ [a]) ! gamma = h ! gamma" "(h @ [a]) ! p = h ! p"
    "(h @ [a]) ! length h = a" for a
    using assms(4-7) by (simp_all add: nth_append)
  show ?thesis
    unfolding calculate_with_def alloc_def Let_def
    using assms(1-3)
    by (simp add: old mask getitem_mask_def setitem_mask_def select_mask_Nil arr_ops_Nil
          scalar_sub_def)
qed

text \<open>
  A call that returns had its potential bound, the lengths of \<open>gamma\<close> and of the
  potential equal and, with the hard core, either an empty \<open>r\<close> or \<open>sigma\<close> bound and
  \<open>r\<close> of that length too.
\<close>

lemma calculate_with_success_cases:
  assumes "calculate_with ef h self r gamma = ((h', self'), Inr v)" and "live h self r gamma"
  shows "\<exists>p. potential self = Some p \<and> p < length h \<and> length (h ! gamma) = length (h ! p) \<and>
           (apply_hard_core self \<longrightarrow>
              h ! r = [] \<or> (\<exists>s. sigma self = Some s) \<and> length (h ! r) = length (h ! p))"
proof (cases "potential self")
  case None
  then show ?thesis using assms(1) by (simp add: calculate_with_def)
next
  case (Some p)
  have p: "p < length h" and r: "r < length h"
    using assms(2) Some by (simp_all add: live_def)
  have len: "length (h ! gamma) = length (h ! p)"
    using assms(1) Some by (simp add: calculate_with_def split: if_splits)
  have hc: "h ! r = [] \<or> (\<exists>s. sigma self = Some s) \<and> length (h ! r) = length (h ! p)"
    if "apply_hard_core self"
  proof (cases "sigma self")
    case None
    then show ?thesis
      using assms(1) Some that len p r
      by (auto simp: calculate_with_def alloc_def Let_def nth_append split: if_splits)
  next
    case (Some s)
    then show ?thesis
      using assms(1) \<open>potential self = Some p\<close> that len p r
      by (auto simp: calculate_with_def alloc_def Let_def getitem_mask_def gt_scalar_def
            nth_append split: if_splits)
  qed
  show ?thesis using Some p len hc by simp
qed

text \<open>No call changes an array that was in the store before it.\<close>

lemma calculate_with_frame:
  assumes "calculate_with ef h self r gamma = ((h', self'), res)" and "a < length h"
  shows "h' ! a = h ! a"
  using assms
  by (auto simp: calculate_with_def alloc_def Let_def nth_append
        split: option.splits if_splits sum.splits)

text \<open>
  The array a call returns is a function of the bound state and of the contents of the
  two arguments: any call from a state that agrees on these returns it.
\<close>

lemma calculate_with_closed_form:
  assumes "calculate_with ef h self r gamma = ((h', self'), Inr v)" and "live h self r gamma"
  shows "\<exists>a. \<forall>hb sb rb gb.
           live hb sb rb gb \<and> bound_state hb sb = bound_state h self \<and>
           hb ! rb = h ! r \<and> hb ! gb = h ! gamma \<longrightarrow>
           calculate_with ef hb sb rb gb =
             ((hb @ [a], sb\<lparr>value := Some (length hb)\<rparr>), Inr (length hb))"
proof -
  obtain p where p: "potential self = Some p" "p < length h"
      "length (h ! gamma) = length (h ! p)"
      "apply_hard_core self \<Longrightarrow>
         h ! r = [] \<or> (\<exists>s. sigma self = Some s) \<and> length (h ! r) = length (h ! p)"
    using calculate_with_success_cases [OF assms] by blast
  have other: "\<exists>pb. potential sb = Some pb \<and> hb ! pb = h ! p \<and> pb < length hb \<and>
                 rb < length hb \<and> gb < length hb \<and>
                 apply_hard_core sb = apply_hard_core self \<and> sigma sb = sigma self"
    if hyp: "live hb sb rb gb" "bound_state hb sb = bound_state h self" for hb sb rb gb
    using hyp p(1) by (auto simp: bound_state_def live_def)
  consider (soft) "\<not> apply_hard_core self"
    | (empty) "apply_hard_core self" "h ! r = []"
    | (core) s where "apply_hard_core self" "sigma self = Some s"
        "length (h ! r) = length (h ! p)"
    using p(4) by blast
  then show ?thesis
  proof cases
    case soft
    let ?a = "map (\<lambda>(u, x). (ef (- u) - 1) * (1 + x)) (zip (h ! p) (h ! gamma))"
    have "calculate_with ef hb sb rb gb =
            ((hb @ [?a], sb\<lparr>value := Some (length hb)\<rparr>), Inr (length hb))"
      if hyp: "live hb sb rb gb" "bound_state hb sb = bound_state h self"
         "hb ! rb = h ! r" "hb ! gb = h ! gamma" for hb sb rb gb
    proof -
      obtain pb where pb: "potential sb = Some pb" "hb ! pb = h ! p"
          "apply_hard_core sb = apply_hard_core self"
        using other [OF hyp(1,2)] by blast
      show ?thesis
        using calculate_with_no_hard_core [of sb pb hb gb ef rb] pb hyp(4) p(3) soft by simp
    qed
    then show ?thesis by blast
  next
    case empty
    let ?a = "map (\<lambda>x. - 1 - x) (h ! gamma)"
    have "calculate_with ef hb sb rb gb =
            ((hb @ [?a], sb\<lparr>value := Some (length hb)\<rparr>), Inr (length hb))"
      if hyp: "live hb sb rb gb" "bound_state hb sb = bound_state h self"
         "hb ! rb = h ! r" "hb ! gb = h ! gamma" for hb sb rb gb
    proof -
      obtain pb where pb: "potential sb = Some pb" "hb ! pb = h ! p" "pb < length hb"
          "rb < length hb" "gb < length hb" "apply_hard_core sb = apply_hard_core self"
        using other [OF hyp(1,2)] by blast
      show ?thesis
        using calculate_with_hard_core_empty [of sb pb hb gb rb ef] pb hyp(3,4) p(3) empty
        by simp
    qed
    then show ?thesis by blast
  next
    case core
    let ?a = "map (\<lambda>(b, u, x). if b then (ef (- u) - 1) * (1 + x) else - 1 - x)
                (zip (gt_scalar (h ! r) s) (zip (h ! p) (h ! gamma)))"
    have "calculate_with ef hb sb rb gb =
            ((hb @ [?a], sb\<lparr>value := Some (length hb)\<rparr>), Inr (length hb))"
      if hyp: "live hb sb rb gb" "bound_state hb sb = bound_state h self"
         "hb ! rb = h ! r" "hb ! gb = h ! gamma" for hb sb rb gb
    proof -
      obtain pb where pb: "potential sb = Some pb" "hb ! pb = h ! p" "pb < length hb"
          "rb < length hb" "gb < length hb" "apply_hard_core sb = apply_hard_core self"
          "sigma sb = sigma self"
        using other [OF hyp(1,2)] by blast
      show ?thesis
        using calculate_with_hard_core [of sb pb s hb gb rb ef] pb hyp(3,4) p(3) core
        by simp
    qed
    then show ?thesis by blast
  qed
qed

text \<open>The same facts for the closure over the reals.\<close>

lemma calculate_no_hard_core:
  assumes "potential self = Some p" and "\<not> apply_hard_core self"
    and "length (h ! gamma) = length (h ! p)"
  shows "calculate h self r gamma =
           ((h @ [map (\<lambda>(u, x). (exp (- u) - 1) * (1 + x)) (zip (h ! p) (h ! gamma))],
             self\<lparr>value := Some (length h)\<rparr>), Inr (length h))"
  unfolding calculate_def using assms by (rule calculate_with_no_hard_core)

lemma calculate_hard_core:
  assumes "potential self = Some p" and "apply_hard_core self" and "sigma self = Some s"
    and "length (h ! gamma) = length (h ! p)" and "length (h ! r) = length (h ! p)"
    and "r < length h" and "gamma < length h" and "p < length h"
  shows "calculate h self r gamma =
           ((h @ [map (\<lambda>(b, u, x). if b then (exp (- u) - 1) * (1 + x) else - 1 - x)
                     (zip (gt_scalar (h ! r) s) (zip (h ! p) (h ! gamma)))],
             self\<lparr>value := Some (length h)\<rparr>), Inr (length h))"
  unfolding calculate_def using assms by (rule calculate_with_hard_core)

lemma calculate_closed_form:
  assumes "calculate h self r gamma = ((h', self'), Inr v)" and "live h self r gamma"
  shows "\<exists>a. \<forall>hb sb rb gb.
           live hb sb rb gb \<and> bound_state hb sb = bound_state h self \<and>
           hb ! rb = h ! r \<and> hb ! gb = h ! gamma \<longrightarrow>
           calculate hb sb rb gb = ((hb @ [a], sb\<lparr>value := Some (length hb)\<rparr>), Inr (length hb))"
  using assms unfolding calculate_def by (rule calculate_with_closed_form)

text \<open>
  With the hard core and an empty grid \<open>r\<close> against a \<open>gamma\<close> of two elements the
  masks are empty, nothing is selected or written, and the call returns \<open>-1 - gamma\<close>,
  with \<open>sigma\<close> bound or not.
\<close>

lemma calculate_empty_grid_example:
  "calculate [[], [3, 4], [7, 0]]
     \<lparr>potential = Some 2, value = None, sigma = Some 1, apply_hard_core = True\<rparr> 0 1
   = (([[], [3, 4], [7, 0], [- 4, - 5]],
       \<lparr>potential = Some 2, value = Some 3, sigma = Some 1, apply_hard_core = True\<rparr>), Inr 3)"
  "calculate [[], [3, 4], [7, 0]]
     \<lparr>potential = Some 2, value = None, sigma = None, apply_hard_core = True\<rparr> 0 1
   = (([[], [3, 4], [7, 0], [- 4, - 5]],
       \<lparr>potential = Some 2, value = Some 3, sigma = None, apply_hard_core = True\<rparr>), Inr 3)"
  by (simp_all add: calculate_def calculate_with_def alloc_def Let_def getitem_mask_def
        setitem_mask_def gt_scalar_def select_mask_def scalar_sub_def sub_scalar_def
        scalar_add_def neg_arr_def exp_arr_def mul_arr_def)

text \<open>A concrete call, for the witnesses below.\<close>

lemma calculate_example:
  "calculate [[2], [3], [0]]
     \<lparr>potential = Some 2, value = None, sigma = None, apply_hard_core = False\<rparr> 0 1
   = (([[2], [3], [0], [0]],
       \<lparr>potential = Some 2, value = Some 3, sigma = None, apply_hard_core = False\<rparr>), Inr 3)"
  by (simp add: calculate_def calculate_with_def alloc_def Let_def sub_scalar_def
        scalar_add_def neg_arr_def exp_arr_def mul_arr_def)

lemma live_example:
  "live [[2], [3], [0::real]]
     \<lparr>potential = Some 2, value = None, sigma = None, apply_hard_core = False\<rparr> 0 1"
  by (simp add: live_def)

subsection \<open>The closure formula and the hard core\<close>

text \<open>
  Claim C1. With the hard core, \<open>sigma\<close> bound to \<open>s\<close>, and the potential, \<open>r\<close> and
  \<open>gamma\<close> of one length \<open>N\<close>, the call returns an array of length \<open>N\<close>: at every
  index with \<open>r \<le> s\<close> it holds \<open>-1 - gamma\<close>, at every index with \<open>r > s\<close> it holds
  \<open>(exp (- potential) - 1) * (1 + gamma)\<close>. Over the reals every index is in exactly one
  of the two regions, and the boundary \<open>r = s\<close> is in the first.
\<close>

theorem calculate_hard_core_partition:
  assumes "apply_hard_core self" and "sigma self = Some s" and "potential self = Some p"
    and "r < length h" and "gamma < length h" and "p < length h"
    and "length (h ! p) = N" and "length (h ! r) = N" and "length (h ! gamma) = N"
  shows "\<exists>h' self' v. calculate h self r gamma = ((h', self'), Inr v) \<and> length (h' ! v) = N \<and>
           (\<forall>i<N. (h ! r ! i \<le> s \<longrightarrow> h' ! v ! i = - 1 - h ! gamma ! i) \<and>
                  (h ! r ! i = s \<longrightarrow> h' ! v ! i = - 1 - h ! gamma ! i) \<and>
                  (s < h ! r ! i \<longrightarrow>
                     h' ! v ! i = (exp (- (h ! p ! i)) - 1) * (1 + h ! gamma ! i)))"
proof -
  let ?a = "map (\<lambda>(b, u, x). if b then (exp (- u) - 1) * (1 + x) else - 1 - x)
              (zip (gt_scalar (h ! r) s) (zip (h ! p) (h ! gamma)))"
  have eq: "calculate h self r gamma = ((h @ [?a], self\<lparr>value := Some (length h)\<rparr>), Inr (length h))"
    using assms by (intro calculate_hard_core) simp_all
  have len: "length ?a = N"
    using assms(7-9) by (simp add: gt_scalar_def)
  have el: "?a ! i = (if s < h ! r ! i then (exp (- (h ! p ! i)) - 1) * (1 + h ! gamma ! i)
                      else - 1 - h ! gamma ! i)" if "i < N" for i
    using that assms(7-9) by (simp add: gt_scalar_def)
  show ?thesis
    unfolding eq using len el by (intro exI conjI) auto
qed

theorem calculate_hard_core_partition_witness:
  "\<exists>h' self' v.
     calculate [[1, 2], [3, 4], [7, 0]]
       \<lparr>potential = Some 2, value = None, sigma = Some 1, apply_hard_core = True\<rparr> 0 1
       = ((h', self'), Inr v) \<and>
     length (h' ! v) = 2 \<and> h' ! v ! 0 = - 1 - 3 \<and> h' ! v ! 1 = (exp (- 0) - 1) * (1 + 4)"
proof -
  have two: "i < (2::nat) \<longleftrightarrow> i = 0 \<or> i = 1" for i by auto
  show ?thesis
    using calculate_hard_core_partition [of
        "\<lparr>potential = Some 2, value = None, sigma = Some 1, apply_hard_core = True\<rparr>"
        1 2 0 "[[1, 2], [3, 4], [7, 0]]" 1 2]
    by (simp add: two) blast
qed

text \<open>
  Claim C2. Without the hard core, with the potential bound to an array of length \<open>N\<close>
  and \<open>gamma\<close> of length \<open>N\<close>, the call returns the array of
  \<open>(exp (- u) - 1) * (1 + gamma)\<close> at every index, whatever \<open>r\<close> is.
\<close>

theorem calculate_no_hard_core_formula:
  assumes "\<not> apply_hard_core self" and "potential self = Some p"
    and "length (h ! p) = N" and "length (h ! gamma) = N"
  shows "\<exists>h' self' v. calculate h self r gamma = ((h', self'), Inr v) \<and> length (h' ! v) = N \<and>
           (\<forall>i<N. h' ! v ! i = (exp (- (h ! p ! i)) - 1) * (1 + h ! gamma ! i))"
proof -
  let ?a = "map (\<lambda>(u, x). (exp (- u) - 1) * (1 + x)) (zip (h ! p) (h ! gamma))"
  have eq: "calculate h self r gamma = ((h @ [?a], self\<lparr>value := Some (length h)\<rparr>), Inr (length h))"
    using assms by (intro calculate_no_hard_core) simp_all
  have "length ?a = N" and "\<forall>i<N. ?a ! i = (exp (- (h ! p ! i)) - 1) * (1 + h ! gamma ! i)"
    using assms(3,4) by simp_all
  then show ?thesis
    unfolding eq by (intro exI conjI) auto
qed

theorem calculate_no_hard_core_formula_witness:
  "\<exists>h' self' v.
     calculate [[1, 2, 3], [3, 4], [0, 0]]
       \<lparr>potential = Some 2, value = None, sigma = None, apply_hard_core = False\<rparr> 0 1
       = ((h', self'), Inr v) \<and>
     length (h' ! v) = 2 \<and> h' ! v ! 0 = (exp (- 0) - 1) * (1 + 3) \<and>
     h' ! v ! 1 = (exp (- 0) - 1) * (1 + 4)"
proof -
  have two: "i < (2::nat) \<longleftrightarrow> i = 0 \<or> i = 1" for i by auto
  show ?thesis
    using calculate_no_hard_core_formula [of
        "\<lparr>potential = Some 2, value = None, sigma = None, apply_hard_core = False\<rparr>"
        2 "[[1, 2, 3], [3, 4], [0, 0]]" 2 1 0]
    by (simp add: two) blast
qed

text \<open>
  Claim C6. The scenario of the specification: \<open>sigma = 1\<close>, potential \<open>[5, 5, 0]\<close>,
  \<open>r = [0.5, 1, 1.5]\<close>, \<open>gamma = [0.1, 0.1, 0.1]\<close>. The call returns a new array
  \<open>[-1.1, -1.1, 0]\<close>: the point \<open>r = 1\<close> is not beyond \<open>sigma\<close>.
\<close>

theorem calculate_concrete_scenario:
  "calculate [[1 / 2, 1, 3 / 2], [1 / 10, 1 / 10, 1 / 10], [5, 5, 0]]
     \<lparr>potential = Some 2, value = None, sigma = Some 1, apply_hard_core = True\<rparr> 0 1
   = (([[1 / 2, 1, 3 / 2], [1 / 10, 1 / 10, 1 / 10], [5, 5, 0], [- 11 / 10, - 11 / 10, 0]],
       \<lparr>potential = Some 2, value = Some 3, sigma = Some 1, apply_hard_core = True\<rparr>),
      Inr 3)"
  by (simp add: calculate_def calculate_with_def alloc_def Let_def getitem_mask_def
        setitem_mask_def gt_scalar_def select_mask_def scalar_sub_def sub_scalar_def
        scalar_add_def neg_arr_def exp_arr_def mul_arr_def)

text \<open>
  A call on a potential that is infinite inside the core: the first grid point is at
  \<open>sigma\<close>, so the infinite value is not read and the result is finite.
\<close>

lemma xreal_example:
  "calculate_with xexp [[Fin 1, Fin 2], [Fin 3, Fin 4], [PInf, Fin 0], [MInf, Fin 0]]
        \<lparr>potential = Some 2, value = None, sigma = Some (Fin 1), apply_hard_core = True\<rparr> 0 1
   = (([[Fin 1, Fin 2], [Fin 3, Fin 4], [PInf, Fin 0], [MInf, Fin 0], [Fin (- 4), Fin 0]],
       \<lparr>potential = Some 2, value = Some 4, sigma = Some (Fin 1), apply_hard_core = True\<rparr>), Inr 4)"
  by (simp add: calculate_with_def alloc_def Let_def getitem_mask_def
        setitem_mask_def gt_scalar_def select_mask_def scalar_sub_def sub_scalar_def
        scalar_add_def neg_arr_def exp_arr_def mul_arr_def one_xreal_def minus_xreal_def)

text \<open>
  Claim C8. With the hard core, two closures that differ only in the bound potential, and
  whose potentials agree at every index with \<open>r > sigma\<close>, return arrays with the same
  contents: the values of the potential at the indices with \<open>r \<le> sigma\<close>, whatever they
  are, have no influence on the result. This holds for every element type and every
  function in the place of \<^verbatim>\<open>np.exp\<close>, so also for potentials that are infinite or NaN
  inside the core: the masked read selects the entries outside the core before the
  function is applied.
\<close>

theorem calculate_core_independent:
  fixes ef :: "'a::{one,uminus,minus,plus,times,ord} \<Rightarrow> 'a"
  assumes "apply_hard_core c1" and "apply_hard_core c2"
    and "sigma c1 = Some s" and "sigma c2 = Some s"
    and "potential c1 = Some p1" and "potential c2 = Some p2"
    and "r < length h" and "gamma < length h" and "p1 < length h" and "p2 < length h"
    and "length (h ! r) = N" and "length (h ! gamma) = N"
    and "length (h ! p1) = N" and "length (h ! p2) = N"
    and "\<forall>i<N. s < h ! r ! i \<longrightarrow> h ! p1 ! i = h ! p2 ! i"
  shows "\<exists>ha ca va hb cb vb.
           calculate_with ef h c1 r gamma = ((ha, ca), Inr va) \<and>
           calculate_with ef h c2 r gamma = ((hb, cb), Inr vb) \<and> ha ! va = hb ! vb"
proof -
  let ?f = "\<lambda>(b, u, x). if b then (ef (- u) - 1) * (1 + x) else - 1 - x"
  let ?a = "\<lambda>p. map ?f (zip (gt_scalar (h ! r) s) (zip (h ! p) (h ! gamma)))"
  have e1: "calculate_with ef h c1 r gamma =
              ((h @ [?a p1], c1\<lparr>value := Some (length h)\<rparr>), Inr (length h))"
    using assms(1,3,5,7-9,11-13) by (intro calculate_with_hard_core) simp_all
  have e2: "calculate_with ef h c2 r gamma =
              ((h @ [?a p2], c2\<lparr>value := Some (length h)\<rparr>), Inr (length h))"
    using assms(2,4,6,7,8,10,11,12,14) by (intro calculate_with_hard_core) simp_all
  have "?a p1 = ?a p2"
  proof (rule nth_equalityI)
    show "length (?a p1) = length (?a p2)"
      using assms(11-14) by (simp add: gt_scalar_def)
  next
    fix i assume "i < length (?a p1)"
    then have i: "i < N" using assms(11-14) by (simp add: gt_scalar_def)
    then show "?a p1 ! i = ?a p2 ! i"
      using assms(11-15) by (simp add: gt_scalar_def)
  qed
  then show ?thesis
    unfolding e1 e2 by simp
qed

theorem calculate_core_independent_witness:
  "(\<exists>ha ca va hb cb vb.
      calculate_with xexp [[Fin 1, Fin 2], [Fin 3, Fin 4], [PInf, Fin 0], [MInf, Fin 0]]
        \<lparr>potential = Some 2, value = None, sigma = Some (Fin 1), apply_hard_core = True\<rparr> 0 1
        = ((ha, ca), Inr va) \<and>
      calculate_with xexp [[Fin 1, Fin 2], [Fin 3, Fin 4], [PInf, Fin 0], [MInf, Fin 0]]
        \<lparr>potential = Some 3, value = None, sigma = Some (Fin 1), apply_hard_core = True\<rparr> 0 1
        = ((hb, cb), Inr vb) \<and> ha ! va = hb ! vb) \<and>
   [[Fin 1, Fin 2], [Fin 3, Fin 4], [PInf, Fin 0], [MInf, Fin 0]] ! 2 ! 0 = PInf \<and>
   [[Fin 1, Fin 2], [Fin 3, Fin 4], [PInf, Fin 0], [MInf, Fin 0]] ! 3 ! 0 = MInf"
proof -
  have two: "i < (2::nat) \<longleftrightarrow> i = 0 \<or> i = 1" for i by auto
  show ?thesis
    using calculate_core_independent [of
        "\<lparr>potential = Some 2, value = None, sigma = Some (Fin 1), apply_hard_core = True\<rparr>"
        "\<lparr>potential = Some 3, value = None, sigma = Some (Fin 1), apply_hard_core = True\<rparr>"
        "Fin 1" 2 3 0 "[[Fin 1, Fin 2], [Fin 3, Fin 4], [PInf, Fin 0], [MInf, Fin 0]]" 1 2 xexp]
    by (simp add: two)
qed

subsection \<open>Faults\<close>

text \<open>
  Claim C3, as amended. A call with no potential bound raises the assertion error
  \<open>Potential for this closure is not set!\<close>; a call where \<open>gamma\<close> and the bound
  potential differ in length raises the assertion error \<open>Domain mismatch!\<close>. Both leave
  the store and the closure, its cached value included, as they were. The length of
  \<open>r\<close> takes no part in either check.
\<close>

theorem calculate_precondition_faults:
  "(potential self = None \<longrightarrow>
      calculate h self r gamma =
        ((h, self), Inl (AssertionError ''Potential for this closure is not set!''))) \<and>
   (\<forall>p. potential self = Some p \<and> length (h ! gamma) \<noteq> length (h ! p) \<longrightarrow>
      calculate h self r gamma = ((h, self), Inl (AssertionError ''Domain mismatch!'')))"
  by (simp add: calculate_def calculate_with_def)

theorem calculate_precondition_faults_witness:
  "potential (PercusYevick_init True) = None \<and>
   calculate [[1], [2]] (PercusYevick_init True) 0 1 =
     (([[1], [2]], PercusYevick_init True),
      Inl (AssertionError ''Potential for this closure is not set!'')) \<and>
   length ([[1], [2], [5, 6]] ! 1) \<noteq> length ([[1], [2], [5, 6::real]] ! 2) \<and>
   calculate [[1], [2], [5, 6]] ((PercusYevick_init False)\<lparr>potential := Some 2\<rparr>) 0 1 =
     (([[1], [2], [5, 6]], (PercusYevick_init False)\<lparr>potential := Some 2\<rparr>),
      Inl (AssertionError ''Domain mismatch!''))"
  using calculate_precondition_faults [of "PercusYevick_init True" "[[1], [2]]" 0 1]
    calculate_precondition_faults [of "(PercusYevick_init False)\<lparr>potential := Some 2\<rparr>"
      "[[1], [2], [5, 6]]" 0 1]
  by (simp add: PercusYevick_init_def)

text \<open>
  The claim as first stated also promises the domain-mismatch fault for an \<open>r\<close> of
  another length. Without the hard core \<open>r\<close> is never read: the call below, with three
  grid points for one value of \<open>gamma\<close>, returns normally and rebinds the cached value.
\<close>

theorem calculate_length_of_r_unchecked:
  "length ([[1, 2, 3], [3], [0]] ! 0) \<noteq> length ([[1, 2, 3], [3], [0::real]] ! 1) \<and>
   calculate [[1, 2, 3], [3], [0]] ((PercusYevick_init False)\<lparr>potential := Some 2\<rparr>) 0 1 =
     (([[1, 2, 3], [3], [0], [0]],
       (PercusYevick_init False)\<lparr>potential := Some 2, value := Some 3\<rparr>), Inr 3) \<and>
   value ((PercusYevick_init False)\<lparr>potential := Some 2, value := Some 3\<rparr>)
     \<noteq> value ((PercusYevick_init False)\<lparr>potential := Some 2\<rparr>)"
  by (simp add: calculate_def calculate_with_def alloc_def Let_def sub_scalar_def
        scalar_add_def neg_arr_def exp_arr_def mul_arr_def PercusYevick_init_def)

subsection \<open>State and effects\<close>

text \<open>
  Claim C7. A call that returns, repeated with the same arguments, returns again, an array
  with the same contents, and leaves the bound state and the contents of the cached value
  as the first call left them. Moreover the result does not depend on the history: a call
  from any state with the same bound state and the same contents of \<open>r\<close> and \<open>gamma\<close>
  (as earlier calls, in any number and order, leave it) returns an array with these
  contents.
\<close>

theorem calculate_idempotent:
  assumes "calculate h self r gamma = ((h1, self1), Inr v1)" and "live h self r gamma"
  shows "(\<exists>h2 self2 v2. calculate h1 self1 r gamma = ((h2, self2), Inr v2) \<and>
            h2 ! v2 = h1 ! v1 \<and> bound_state h2 self2 = bound_state h1 self1 \<and>
            cached_value h2 self2 = cached_value h1 self1) \<and>
         (\<forall>hb sb rb gb.
            live hb sb rb gb \<and> bound_state hb sb = bound_state h self \<and>
            hb ! rb = h ! r \<and> hb ! gb = h ! gamma \<longrightarrow>
            (\<exists>h3 s3 v3. calculate hb sb rb gb = ((h3, s3), Inr v3) \<and> h3 ! v3 = h1 ! v1))"
proof -
  obtain a where a: "\<And>hb sb rb gb.
      live hb sb rb gb \<Longrightarrow> bound_state hb sb = bound_state h self \<Longrightarrow>
      hb ! rb = h ! r \<Longrightarrow> hb ! gb = h ! gamma \<Longrightarrow>
      calculate hb sb rb gb = ((hb @ [a], sb\<lparr>value := Some (length hb)\<rparr>), Inr (length hb))"
    using calculate_closed_form [OF assms] by blast
  have "bound_state h self = bound_state h self" by simp
  from a [OF assms(2) this] assms(1)
  have first: "h1 = h @ [a]" "self1 = self\<lparr>value := Some (length h)\<rparr>" "v1 = length h"
    by simp_all
  have live1: "live h1 self1 r gamma"
    using assms(2) by (auto simp: first live_def split: option.splits)
  have bound1: "bound_state h1 self1 = bound_state h self"
    using assms(2)
    by (cases "potential self") (simp_all add: first bound_state_def live_def nth_append)
  have in1: "h1 ! r = h ! r" "h1 ! gamma = h ! gamma"
    using assms(2) by (simp_all add: first live_def nth_append)
  have second: "calculate h1 self1 r gamma =
      ((h1 @ [a], self1\<lparr>value := Some (length h1)\<rparr>), Inr (length h1))"
    using a [OF live1 bound1 in1] .
  have res: "(h1 @ [a]) ! length h1 = h1 ! v1"
    by (simp add: first nth_append)
  have bound2: "bound_state (h1 @ [a]) (self1\<lparr>value := Some (length h1)\<rparr>) = bound_state h1 self1"
    using live1
    by (cases "potential self1") (simp_all add: bound_state_def live_def nth_append)
  have cached2: "cached_value (h1 @ [a]) (self1\<lparr>value := Some (length h1)\<rparr>) = cached_value h1 self1"
    by (simp add: cached_value_def first nth_append)
  have part1: "\<exists>h2 self2 v2. calculate h1 self1 r gamma = ((h2, self2), Inr v2) \<and>
            h2 ! v2 = h1 ! v1 \<and> bound_state h2 self2 = bound_state h1 self1 \<and>
            cached_value h2 self2 = cached_value h1 self1"
    unfolding second using res bound2 cached2 by blast
  have part2: "\<exists>h3 s3 v3. calculate hb sb rb gb = ((h3, s3), Inr v3) \<and> h3 ! v3 = h1 ! v1"
    if "live hb sb rb gb \<and> bound_state hb sb = bound_state h self \<and>
        hb ! rb = h ! r \<and> hb ! gb = h ! gamma" for hb sb rb gb
  proof -
    have "calculate hb sb rb gb = ((hb @ [a], sb\<lparr>value := Some (length hb)\<rparr>), Inr (length hb))"
      using a that by blast
    moreover have "(hb @ [a]) ! length hb = h1 ! v1"
      by (simp add: first)
    ultimately show ?thesis by blast
  qed
  show ?thesis using part1 part2 by blast
qed

theorem calculate_idempotent_witness:
  "live [[2], [3], [0::real]]
     \<lparr>potential = Some 2, value = None, sigma = None, apply_hard_core = False\<rparr> 0 1 \<and>
   (\<exists>h2 self2 v2.
      calculate [[2], [3], [0], [0]]
        \<lparr>potential = Some 2, value = Some 3, sigma = None, apply_hard_core = False\<rparr> 0 1
        = ((h2, self2), Inr v2) \<and>
      h2 ! v2 = [[2], [3], [0], [0]] ! 3 \<and>
      bound_state h2 self2 = bound_state [[2], [3], [0], [0]]
        \<lparr>potential = Some 2, value = Some 3, sigma = None, apply_hard_core = False\<rparr> \<and>
      cached_value h2 self2 = cached_value [[2], [3], [0], [0]]
        \<lparr>potential = Some 2, value = Some 3, sigma = None, apply_hard_core = False\<rparr>)"
  using calculate_idempotent [OF calculate_example live_example] live_example by blast

text \<open>
  Claim C9. After a call that returns, the field \<open>value\<close> holds the reference that was
  returned: the cached array and the returned array are one object. It is an array of the
  store after the call and was not in the store before.
\<close>

theorem calculate_caches_result:
  assumes "calculate h self r gamma = ((h', self'), Inr v)"
  shows "value self' = Some v \<and> v < length h' \<and> length h \<le> v"
  using assms
  by (auto simp: calculate_def calculate_with_def alloc_def Let_def
        split: option.splits if_splits sum.splits)

theorem calculate_caches_result_witness:
  "calculate [[2], [3], [0]]
     \<lparr>potential = Some 2, value = None, sigma = None, apply_hard_core = False\<rparr> 0 1
   = (([[2], [3], [0], [0]],
       \<lparr>potential = Some 2, value = Some 3, sigma = None, apply_hard_core = False\<rparr>), Inr 3) \<and>
   value \<lparr>potential = Some 2, value = Some 3, sigma = None, apply_hard_core = False\<rparr> = Some 3 \<and>
   3 < length [[2], [3], [0], [0::real]] \<and> length [[2], [3], [0::real]] \<le> 3"
  using calculate_caches_result [OF calculate_example] calculate_example by simp

text \<open>
  Claim C10. Whatever a call does, the arrays passed as \<open>r\<close> and \<open>gamma\<close> hold after it
  what they held before: the masked assignment of the hard-core branch writes into the
  array that \<open>-1 - gamma\<close> created.
\<close>

theorem calculate_inputs_unchanged:
  assumes "calculate h self r gamma = ((h', self'), res)" and "r < length h" and "gamma < length h"
  shows "h' ! r = h ! r \<and> h' ! gamma = h ! gamma"
  using assms
  by (auto simp: calculate_def calculate_with_def alloc_def Let_def nth_append
        split: option.splits if_splits sum.splits)

theorem calculate_inputs_unchanged_witness:
  "calculate [[2], [3], [0]]
     \<lparr>potential = Some 2, value = None, sigma = None, apply_hard_core = False\<rparr> 0 1
   = (([[2], [3], [0], [0]],
       \<lparr>potential = Some 2, value = Some 3, sigma = None, apply_hard_core = False\<rparr>), Inr 3) \<and>
   (0::nat) < length [[2], [3], [0::real]] \<and> (1::nat) < length [[2], [3], [0::real]] \<and>
   [[2], [3], [0], [0]] ! 0 = [[2], [3], [0::real]] ! 0 \<and>
   [[2], [3], [0], [0]] ! 1 = [[2], [3], [0::real]] ! 1"
  using calculate_inputs_unchanged [OF calculate_example] calculate_example by simp

subsection \<open>The Weeks-Chandler-Andersen potential\<close>

text \<open>
  Claim C4. Whatever the constructor and the evaluation of the base class are, the object
  that \<open>WeeksChandlerAndersen_init\<close> builds is the one the base constructor builds from
  \<open>rcut = sigma * 2 powr (1 / 6)\<close> and \<open>shift = True\<close>, and evaluating the one over a
  grid is evaluating the other: the specialisation has no formula of its own.
\<close>

theorem WeeksChandlerAndersen_delegates:
  "WeeksChandlerAndersen_init base_init eps sig = base_init eps sig (Some (sig * 2 powr (1 / 6))) True \<and>
   evaluate (WeeksChandlerAndersen_init base_init eps sig) r =
     evaluate (base_init eps sig (Some (sig * 2 powr (1 / 6))) True) r"
  by (simp add: WeeksChandlerAndersen_init_def)

text \<open>
  With the base class as modelled above, the shifted expression vanishes at the cutoff
  for a positive \<open>sigma\<close>: there the 6th power of \<open>sigma / r\<close> is one half. The value
  at \<open>r = rcut\<close> is therefore \<open>0\<close> whether or not the cutoff includes this point.
\<close>

lemma rcut_power_6:
  assumes "0 < (sig::real)"
  shows "(sig / (sig * 2 powr (1 / 6))) ^ 6 = 1 / 2"
proof -
  have "(2 powr (1 / 6)) powr (real 6) = (2 powr (1 / 6)) ^ 6"
    by (rule powr_realpow) simp
  then have "(2 powr (1 / 6)) ^ 6 = (2::real) powr (1 / 6 * real 6)"
    by (simp only: powr_powr)
  then have six: "(2 powr (1 / 6)) ^ 6 = (2::real)"
    by simp
  have "sig / (sig * 2 powr (1 / 6)) = 1 / 2 powr (1 / 6)"
    using assms by simp
  then show ?thesis
    using six by (simp add: power_divide)
qed

lemma WeeksChandlerAndersen_zero_at_cutoff:
  assumes "0 < sig"
  shows "LennardJones_funk (WeeksChandlerAndersen_init LennardJones_init eps sig)
           (sig * 2 powr (1 / 6)) + eps = 0"
proof -
  define q where "q = sig / (sig * 2 powr (1 / 6))"
  have six: "q ^ 6 = 1 / 2"
    unfolding q_def using assms by (rule rcut_power_6)
  have "q ^ 12 = (q ^ 6) ^ 2"
    by (simp add: power_mult [symmetric])
  then have twelve: "q ^ 12 = 1 / 4"
    by (simp add: six power2_eq_square)
  have "LennardJones_funk (WeeksChandlerAndersen_init LennardJones_init eps sig)
          (sig * 2 powr (1 / 6)) = 4 * eps * (q ^ 12 - q ^ 6)"
    unfolding q_def
    by (simp add: LennardJones_funk_def WeeksChandlerAndersen_init_def LennardJones_init_def)
  then show ?thesis
    by (simp add: six twelve)
qed

lemma rcut_bounds: "1 \<le> (2::real) powr (1 / 6)" "(2::real) powr (1 / 6) \<le> 2"
proof -
  show "1 \<le> (2::real) powr (1 / 6)"
    by (rule ge_one_powr_ge_zero) simp_all
  have "(2::real) powr (1 / 6) \<le> 2 powr 1"
    by (rule powr_mono) simp_all
  then show "(2::real) powr (1 / 6) \<le> 2" by simp
qed

text \<open>
  Claim C5. The Weeks-Chandler-Andersen potential, evaluated by the base class as modelled
  above, preserves the length of the grid, is \<open>0\<close> at every grid point with
  \<open>r \<ge> rcut\<close>, and at every grid point with \<open>r < rcut\<close> (and \<open>r\<close> not zero, where the
  expression divides by it) it is \<open>4 * epsilon * ((sigma / r) ^ 12 - (sigma / r) ^ 6) +
  epsilon\<close>, where \<open>rcut = sigma * 2 powr (1 / 6)\<close>.
\<close>

theorem WeeksChandlerAndersen_piecewise:
  assumes "i < length r"
  shows "length (LennardJones_calculate (WeeksChandlerAndersen_init LennardJones_init eps sig) r)
           = length r \<and>
         (sig * 2 powr (1 / 6) \<le> r ! i \<longrightarrow>
            LennardJones_calculate (WeeksChandlerAndersen_init LennardJones_init eps sig) r ! i = 0) \<and>
         (r ! i < sig * 2 powr (1 / 6) \<and> r ! i \<noteq> 0 \<longrightarrow>
            LennardJones_calculate (WeeksChandlerAndersen_init LennardJones_init eps sig) r ! i
              = 4 * eps * ((sig / r ! i) ^ 12 - (sig / r ! i) ^ 6) + eps)"
  using assms
  by (simp add: LennardJones_calculate_def WeeksChandlerAndersen_init_def LennardJones_init_def
        LennardJones_funk_def)

theorem WeeksChandlerAndersen_piecewise_witness:
  "LennardJones_calculate (WeeksChandlerAndersen_init LennardJones_init 1 1) [1 / 2, 2] ! 1 = 0 \<and>
   LennardJones_calculate (WeeksChandlerAndersen_init LennardJones_init 1 1) [1 / 2, 2] ! 0
     = 4 * 1 * ((1 / (1 / 2)) ^ 12 - (1 / (1 / 2)) ^ 6) + 1"
proof -
  have lo: "(1 / 2 :: real) < 1 * 2 powr (1 / 6)" and hi: "(1::real) * 2 powr (1 / 6) \<le> 2"
    using rcut_bounds by simp_all
  have "LennardJones_calculate (WeeksChandlerAndersen_init LennardJones_init 1 1) [1 / 2, 2] ! 1 = 0"
    using WeeksChandlerAndersen_piecewise [of 1 "[1 / 2, 2]" 1 1] hi by simp
  moreover have "LennardJones_calculate (WeeksChandlerAndersen_init LennardJones_init 1 1) [1 / 2, 2] ! 0
     = 4 * 1 * ((1 / (1 / 2)) ^ 12 - (1 / (1 / 2)) ^ 6) + 1"
    using WeeksChandlerAndersen_piecewise [of 0 "[1 / 2, 2]" 1 1] lo by simp
  ultimately show ?thesis by blast
qed

end
